theory Spec2Isabelle
  imports Complex_Main "HOL-Library.Sublist"
begin

section \<open>feature-view.py: a bar graph of the features of a BED file\<close>

text \<open>
  The script has three sections: it checks the number of command line arguments, reads the
  BED file into three parallel lists, and hands the lists to the plotting library. The model
  follows the script section by section. Text is a \<^typ>\<open>string\<close> with one \<^typ>\<open>char\<close>
  per code point, so the model covers files whose decoded text stays below code point 256.
\<close>

subsection \<open>Library functions of the language\<close>

text \<open>
  \<^verbatim>\<open>str.split()\<close> without arguments cuts a string at every run of whitespace and drops
  the empty pieces. Below code point 256 the characters that \<^verbatim>\<open>str.isspace\<close> accepts are
  0x09 to 0x0D, 0x1C to 0x20, 0x85 and 0xA0.
\<close>

definition is_space :: "char \<Rightarrow> bool" where
  "is_space c = (c \<in> set [CHR 0x09, CHR 0x0A, CHR 0x0B, CHR 0x0C, CHR 0x0D,
                           CHR 0x1C, CHR 0x1D, CHR 0x1E, CHR 0x1F, CHR 0x20,
                           CHR 0x85, CHR 0xA0])"

text \<open>The first argument is the field collected so far.\<close>

fun split_from :: "string \<Rightarrow> string \<Rightarrow> string list" where
  "split_from cur [] = (if cur = [] then [] else [cur])"
| "split_from cur (c # cs) =
     (if is_space c then (if cur = [] then split_from [] cs else cur # split_from [] cs)
      else split_from (cur @ [c]) cs)"

definition split :: "string \<Rightarrow> string list" where
  "split line = split_from [] line"

text \<open>
  \<^verbatim>\<open>int(s)\<close> for a string in base ten: an optional sign, then decimal digits, where single
  underscores may stand between two digits. Anything else raises ValueError, here \<open>None\<close>.
  The result is unbounded. \<^verbatim>\<open>int\<close> also strips whitespace around the number; the script
  only converts fields that \<^verbatim>\<open>split\<close> produced, which hold no whitespace
  (lemma \<open>split_fields_no_space\<close>), so the model leaves the stripping out. The interpreter's
  configurable limit on the number of digits is taken as switched off.
\<close>

definition digit :: "char \<Rightarrow> nat option" where
  "digit c = map_of [(CHR ''0'', 0), (CHR ''1'', 1), (CHR ''2'', 2), (CHR ''3'', 3),
                     (CHR ''4'', 4), (CHR ''5'', 5), (CHR ''6'', 6), (CHR ''7'', 7),
                     (CHR ''8'', 8), (CHR ''9'', 9)] c"

text \<open>The flag says whether the character just before was a digit.\<close>

fun digits :: "bool \<Rightarrow> nat \<Rightarrow> string \<Rightarrow> nat option" where
  "digits prev acc [] = (if prev then Some acc else None)"
| "digits prev acc (c # cs) =
     (case digit c of
        Some d \<Rightarrow> digits True (10 * acc + d) cs
      | None \<Rightarrow> if c = CHR ''_'' \<and> prev then digits False acc cs else None)"

definition py_int :: "string \<Rightarrow> int option" where
  "py_int s =
     (case s of
        [] \<Rightarrow> None
      | c # cs \<Rightarrow>
          if c = CHR ''-'' then map_option (\<lambda>n. - int n) (digits False 0 cs)
          else if c = CHR ''+'' then map_option int (digits False 0 cs)
          else map_option int (digits False 0 s))"

subsection \<open>Reading the BED file into lists\<close>

datatype exn = IndexError | ValueError | OSError | UnicodeDecodeError

record lists =
  features :: "string list"
  lengths :: "int list"
  fstarts :: "int list"

definition empty_lists :: lists where
  "empty_lists = \<lparr>features = [], lengths = [], fstarts = []\<rparr>"

text \<open>
  One pass of the loop body. The three statements run in the order of the script, and a
  failure carries the lists as they are at that moment: \<^verbatim>\<open>a[3]\<close> raises IndexError before
  anything is appended, and both conversions of the second statement are evaluated, end
  field first, before \<^verbatim>\<open>lengths.append\<close> is called.
\<close>

definition loop_body :: "string \<Rightarrow> lists \<Rightarrow> (exn \<times> lists) + lists" where
  "loop_body line s =
     (let a = split line in
      if \<not> 3 < length a then Inl (IndexError, s)
      else
        let s1 = s\<lparr>features := features s @ [a ! 3]\<rparr> in
        case py_int (a ! 2) of
          None \<Rightarrow> Inl (ValueError, s1)
        | Some e \<Rightarrow>
            (case py_int (a ! 1) of
               None \<Rightarrow> Inl (ValueError, s1)
             | Some b \<Rightarrow>
                 let s2 = s1\<lparr>lengths := lengths s1 @ [e - b]\<rparr> in
                 (case py_int (a ! 1) of
                    None \<Rightarrow> Inl (ValueError, s2)
                  | Some b' \<Rightarrow> Inr (s2\<lparr>fstarts := fstarts s2 @ [b']\<rparr>))))"

fun for_lines :: "string list \<Rightarrow> lists \<Rightarrow> (exn \<times> lists) + lists" where
  "for_lines [] s = Inr s"
| "for_lines (line # rest) s =
     (case loop_body line s of
        Inl failure \<Rightarrow> Inl failure
      | Inr s' \<Rightarrow> for_lines rest s')"

subsection \<open>Plotting and the script as a whole\<close>

text \<open>
  The calls to the operating system and to the plotting library are recorded in the order the
  script makes them, each with the arguments it is given. A call that fails is the last one
  recorded. What the plotting library does inside a call is not part of the script, so a
  plotting call is recorded and returns. The float literal 0.3 is kept as the decimal that
  is written in the script; no arithmetic is done on it.
\<close>

datatype call =
    Write_stderr string
  | Open string string
  | Readlines
  | Close
  | Rcdefaults
  | Subplots
  | Barh "int list" "int list" rat "int list" string
  | Set_yticks "int list"
  | Set_yticklabels "string list"
  | Invert_yaxis
  | Set_xlabel string
  | Set_title string
  | Show

text \<open>
  \<open>Barh y width height left align\<close> stands for
  \<^verbatim>\<open>ax.barh(y, width, height, left=left, align=align)\<close>.
\<close>

fun is_file_call :: "call \<Rightarrow> bool" where
  "is_file_call (Open path mode) = True"
| "is_file_call Readlines = True"
| "is_file_call Close = True"
| "is_file_call c = False"

fun is_plot_call :: "call \<Rightarrow> bool" where
  "is_plot_call (Write_stderr msg) = False"
| "is_plot_call (Open path mode) = False"
| "is_plot_call Readlines = False"
| "is_plot_call Close = False"
| "is_plot_call c = True"

text \<open>
  A process ends by \<^verbatim>\<open>sys.exit\<close> or by running off the end of the script (status 0), or
  with an exception that nothing catches: the interpreter then prints a traceback and the
  status is 1.
\<close>

datatype outcome = Exit nat | Uncaught exn

fun exit_status :: "outcome \<Rightarrow> nat" where
  "exit_status (Exit n) = n"
| "exit_status (Uncaught e) = 1"

record run =
  calls :: "call list"
  outcome :: outcome

text \<open>
  A path that names no readable file makes \<^verbatim>\<open>open\<close> fail; a file whose bytes do not
  decode makes \<^verbatim>\<open>readlines\<close> fail; otherwise \<^verbatim>\<open>readlines\<close> returns the lines of the file.
\<close>

datatype file_content = Undecodable | Text "string list"

type_synonym filesystem = "string \<Rightarrow> file_content option"

definition newline :: char where
  "newline = CHR 0x0A"

text \<open>
  \<^verbatim>\<open>sys.exit\<close> with a string writes the string and a line break to the standard error
  stream and ends the process with status 1.
\<close>

definition sys_exit :: "string \<Rightarrow> run" where
  "sys_exit msg = \<lparr>calls = [Write_stderr (msg @ [newline])], outcome = Exit 1\<rparr>"

definition usage :: string where
  "usage = ''Usage: sys.argv[0] bed-file'' @ [newline]"

definition arange :: "nat \<Rightarrow> int list" where
  "arange n = map int [0..<n]"

definition plot :: "lists \<Rightarrow> call list" where
  "plot s =
     (let y_pos = arange (length (features s)) in
      [Rcdefaults, Subplots,
       Barh y_pos (lengths s) (3 / 10) (fstarts s) ''center'',
       Set_yticks y_pos,
       Set_yticklabels (features s),
       Invert_yaxis,
       Set_xlabel ''Position'',
       Set_title ''Gene subfeatures'',
       Show])"

text \<open>
  The script from its first statement to its last. The plotting modules are taken to be
  installed, so the imports at the top succeed.
\<close>

definition main :: "string list \<Rightarrow> filesystem \<Rightarrow> run" where
  "main argv fs =
     (if length argv \<noteq> 2 then sys_exit usage
      else
        let bed_file = argv ! 1 in
        case fs bed_file of
          None \<Rightarrow> \<lparr>calls = [Open bed_file ''r''], outcome = Uncaught OSError\<rparr>
        | Some Undecodable \<Rightarrow>
            \<lparr>calls = [Open bed_file ''r'', Readlines], outcome = Uncaught UnicodeDecodeError\<rparr>
        | Some (Text ls) \<Rightarrow>
            (case for_lines ls empty_lists of
               Inl (e, s) \<Rightarrow> \<lparr>calls = [Open bed_file ''r'', Readlines], outcome = Uncaught e\<rparr>
             | Inr s \<Rightarrow>
                 \<lparr>calls = [Open bed_file ''r'', Readlines, Close] @ plot s, outcome = Exit 0\<rparr>))"

subsection \<open>Well-formed lines\<close>

text \<open>
  What the specification calls a well-formed line, and the three values it reads off a line.
\<close>

definition well_formed :: "string \<Rightarrow> bool" where
  "well_formed line =
     (4 \<le> length (split line) \<and> py_int (split line ! 1) \<noteq> None \<and> py_int (split line ! 2) \<noteq> None)"

definition name_of :: "string \<Rightarrow> string" where
  "name_of line = split line ! 3"

definition start_of :: "string \<Rightarrow> int" where
  "start_of line = the (py_int (split line ! 1))"

definition end_of :: "string \<Rightarrow> int" where
  "end_of line = the (py_int (split line ! 2))"

subsection \<open>File systems for concrete runs\<close>

text \<open>A file system without any file, and one that holds a single text file.\<close>

definition no_files :: filesystem where
  "no_files = (\<lambda>path. None)"

definition one_file :: "string \<Rightarrow> string list \<Rightarrow> filesystem" where
  "one_file name ls = (\<lambda>path. if path = name then Some (Text ls) else None)"

subsection \<open>Properties of the library functions\<close>

lemma split_from_fields:
  "\<forall>c \<in> set cur. \<not> is_space c \<Longrightarrow> f \<in> set (split_from cur cs) \<Longrightarrow>
     f \<noteq> [] \<and> (\<forall>c \<in> set f. \<not> is_space c)"
proof (induction cs arbitrary: cur)
  case Nil
  then show ?case by (auto split: if_splits)
next
  case (Cons c cs)
  show ?case
  proof (cases "is_space c")
    case True
    with Cons.prems have "f = cur \<and> cur \<noteq> [] \<or> f \<in> set (split_from [] cs)"
      by (auto split: if_splits)
    then show ?thesis
      using Cons.IH [of "[]"] Cons.prems(1) by auto
  next
    case False
    with Cons.prems have "f \<in> set (split_from (cur @ [c]) cs)" by simp
    moreover have "\<forall>d \<in> set (cur @ [c]). \<not> is_space d"
      using Cons.prems(1) False by auto
    ultimately show ?thesis
      using Cons.IH [of "cur @ [c]"] by blast
  qed
qed

lemma split_fields_no_space:
  "f \<in> set (split line) \<Longrightarrow> f \<noteq> [] \<and> (\<forall>c \<in> set f. \<not> is_space c)"
  unfolding split_def using split_from_fields [of "[]" f line] by simp

subsection \<open>Properties of the loop\<close>

lemma loop_body_well_formed:
  "well_formed line \<Longrightarrow>
   loop_body line s =
     Inr \<lparr>features = features s @ [name_of line],
          lengths = lengths s @ [end_of line - start_of line],
          fstarts = fstarts s @ [start_of line]\<rparr>"
  by (auto simp: well_formed_def loop_body_def Let_def name_of_def start_of_def end_of_def)

lemma for_lines_well_formed:
  "list_all well_formed ls \<Longrightarrow>
   for_lines ls s =
     Inr \<lparr>features = features s @ map name_of ls,
          lengths = lengths s @ map (\<lambda>l. end_of l - start_of l) ls,
          fstarts = fstarts s @ map start_of ls\<rparr>"
proof (induction ls arbitrary: s)
  case Nil
  then show ?case by simp
next
  case (Cons l ls)
  then show ?case by (simp add: loop_body_well_formed)
qed

lemma loop_body_malformed:
  "\<not> well_formed line \<Longrightarrow>
   loop_body line s =
     (if length (split line) < 4 then Inl (IndexError, s)
      else Inl (ValueError, s\<lparr>features := features s @ [split line ! 3]\<rparr>))"
  by (auto simp: well_formed_def loop_body_def Let_def split: option.splits)

lemma for_lines_append:
  "for_lines (xs @ ys) s =
     (case for_lines xs s of Inl failure \<Rightarrow> Inl failure | Inr s' \<Rightarrow> for_lines ys s')"
  by (induction xs arbitrary: s) (auto split: sum.splits)

lemma for_lines_first_malformed:
  assumes "list_all well_formed pre" and "\<not> well_formed line"
  shows "for_lines (pre @ line # post) empty_lists =
     (if length (split line) < 4
      then Inl (IndexError,
        \<lparr>features = map name_of pre,
         lengths = map (\<lambda>l. end_of l - start_of l) pre,
         fstarts = map start_of pre\<rparr>)
      else Inl (ValueError,
        \<lparr>features = map name_of pre @ [split line ! 3],
         lengths = map (\<lambda>l. end_of l - start_of l) pre,
         fstarts = map start_of pre\<rparr>))"
  using assms
  by (simp add: for_lines_append for_lines_well_formed loop_body_malformed empty_lists_def)

lemma for_lines_Inr_well_formed:
  "for_lines ls s = Inr s' \<Longrightarrow> list_all well_formed ls"
proof (induction ls arbitrary: s)
  case Nil
  then show ?case by simp
next
  case (Cons l ls)
  show ?case
  proof (cases "well_formed l")
    case True
    with Cons show ?thesis by (auto split: sum.splits)
  next
    case False
    then have "\<exists>failure. loop_body l s = Inl failure"
      by (simp add: loop_body_malformed)
    with Cons.prems show ?thesis by auto
  qed
qed

lemma first_malformed:
  assumes "\<not> list_all well_formed ls"
  shows "\<exists>pre bad post. ls = pre @ bad # post \<and> list_all well_formed pre \<and> \<not> well_formed bad"
proof -
  from assms have "\<exists>l \<in> set ls. \<not> well_formed l"
    by (simp add: list_all_iff)
  then obtain pre bad post where "ls = pre @ bad # post" and "\<not> well_formed bad"
    and "\<forall>l \<in> set pre. \<not> \<not> well_formed l"
    using split_list_first_prop [of ls "\<lambda>l. \<not> well_formed l"] by blast
  then show ?thesis
    by (auto simp: list_all_iff)
qed

lemma py_int_not_minus:
  "py_int f = Some n \<Longrightarrow> hd f \<noteq> CHR ''-'' \<Longrightarrow> 0 \<le> n"
  by (auto simp: py_int_def split: list.splits if_splits)

lemma plot_calls_are_plot_calls: "list_all is_plot_call (plot s)"
  by (simp add: plot_def Let_def)

section \<open>Properties of the script\<close>

text \<open>
  The evaluation rules for runs on concrete files: the definitions of the library functions.
\<close>

lemmas concrete_defs =
  split_def is_space_def py_int_def digit_def well_formed_def name_of_def start_of_def
  end_of_def loop_body_def empty_lists_def one_file_def

subsection \<open>C1: what the loader appends for each line\<close>

text \<open>
  Claim C1. For a file of well-formed lines the loader returns lists whose entries at every
  index \<open>i\<close> are read off line \<open>i\<close>: the name is the fourth field, the start is the integer
  of the second field, and the length is the integer of the third field minus the start.
\<close>

theorem loader_appends_fields:
  assumes "list_all well_formed ls" and "i < length ls"
  shows "\<exists>s e. for_lines ls empty_lists = Inr s
    \<and> features s ! i = split (ls ! i) ! 3
    \<and> py_int (split (ls ! i) ! 1) = Some (fstarts s ! i)
    \<and> py_int (split (ls ! i) ! 2) = Some e
    \<and> lengths s ! i = e - fstarts s ! i"
proof -
  from assms have wf: "well_formed (ls ! i)"
    by (simp add: list_all_length)
  then obtain b e where b: "py_int (split (ls ! i) ! 1) = Some b"
    and e: "py_int (split (ls ! i) ! 2) = Some e"
    by (auto simp: well_formed_def)
  let ?s = "\<lparr>features = map name_of ls,
             lengths = map (\<lambda>l. end_of l - start_of l) ls,
             fstarts = map start_of ls\<rparr>"
  have "for_lines ls empty_lists = Inr ?s"
    using assms(1) by (simp add: for_lines_well_formed empty_lists_def)
  moreover have "features ?s ! i = split (ls ! i) ! 3"
    using assms(2) by (simp add: name_of_def)
  moreover have "fstarts ?s ! i = b"
    using assms(2) b by (simp add: start_of_def)
  moreover have "lengths ?s ! i = e - b"
    using assms(2) b e by (simp add: start_of_def end_of_def)
  ultimately show ?thesis
    using b e by metis
qed

theorem loader_appends_fields_witness:
  "list_all well_formed [''chr1 10 20 a'', ''chr1 30 45 b''] \<and> (1::nat) < 2
   \<and> (\<exists>s e. for_lines [''chr1 10 20 a'', ''chr1 30 45 b''] empty_lists = Inr s
        \<and> features s ! 1 = ''b'' \<and> Some 30 = Some (fstarts s ! 1)
        \<and> Some 45 = Some e \<and> lengths s ! 1 = e - fstarts s ! 1)"
proof -
  have h: "list_all well_formed [''chr1 10 20 a'', ''chr1 30 45 b'']"
    by (simp add: concrete_defs)
  have f: "split ''chr1 30 45 b'' = [''chr1'', ''30'', ''45'', ''b'']"
    by (simp add: concrete_defs)
  have i: "py_int ''30'' = Some 30" "py_int ''45'' = Some 45"
    by (simp_all add: concrete_defs)
  show ?thesis
    using h loader_appends_fields [OF h, of 1] by (simp add: f i)
qed

subsection \<open>C2: three lists of equal length in line order\<close>

text \<open>
  Claim C2. For a file of \<open>N\<close> well-formed lines the loader returns three lists of length
  \<open>N\<close>; each is the list of the lines' values in the order of the lines, so the entries at
  one index belong to the same line and nothing is dropped, added or reordered.
\<close>

theorem loader_lock_step:
  assumes "list_all well_formed ls"
  shows "\<exists>s. for_lines ls empty_lists = Inr s
    \<and> length (features s) = length ls
    \<and> length (lengths s) = length ls
    \<and> length (fstarts s) = length ls
    \<and> features s = map name_of ls
    \<and> lengths s = map (\<lambda>l. end_of l - start_of l) ls
    \<and> fstarts s = map start_of ls"
  using assms by (simp add: for_lines_well_formed empty_lists_def)

theorem loader_lock_step_witness:
  "list_all well_formed [''chr1 10 20 a'', ''chr1 30 45 b'']
   \<and> (\<exists>s. for_lines [''chr1 10 20 a'', ''chr1 30 45 b''] empty_lists = Inr s
        \<and> length (features s) = 2 \<and> length (lengths s) = 2 \<and> length (fstarts s) = 2
        \<and> features s = [''a'', ''b''] \<and> lengths s = [10, 15] \<and> fstarts s = [10, 30])"
proof -
  have h: "list_all well_formed [''chr1 10 20 a'', ''chr1 30 45 b'']"
    by (simp add: concrete_defs)
  have v: "name_of ''chr1 10 20 a'' = ''a''" "name_of ''chr1 30 45 b'' = ''b''"
    "start_of ''chr1 10 20 a'' = 10" "start_of ''chr1 30 45 b'' = 30"
    "end_of ''chr1 10 20 a'' = 20" "end_of ''chr1 30 45 b'' = 45"
    by (simp_all add: concrete_defs)
  show ?thesis
    using h loader_lock_step [OF h] by (auto simp: v numeral_2_eq_2)
qed

subsection \<open>C3: the usage message\<close>

text \<open>
  Claim C3. Called with no argument, the script writes a usage line to the standard error
  stream and exits with status 1. The line is the fixed text of the string literal: the
  characters \<^verbatim>\<open>sys.argv[0]\<close> stand in it as they are written, and the name the script was
  called by does not occur in it.
\<close>

theorem usage_message_is_literal:
  "main [''feature-view.py''] no_files =
     \<lparr>calls = [Write_stderr (''Usage: sys.argv[0] bed-file'' @ [CHR 0x0A, CHR 0x0A])],
      outcome = Exit 1\<rparr>
   \<and> \<not> sublist ''feature-view.py'' (''Usage: sys.argv[0] bed-file'' @ [CHR 0x0A, CHR 0x0A])"
proof -
  have "\<not> sublist ''feature-view.py'' (''Usage: sys.argv[0] bed-file'' @ [CHR 0x0A, CHR 0x0A])"
    by code_simp
  then show ?thesis
    by (simp add: main_def sys_exit_def usage_def newline_def)
qed

subsection \<open>C4: a malformed line stops the script before any plotting\<close>

text \<open>
  Claim C4. When a file holds a line that is not well-formed (fewer than four fields, or a
  second or third field that is no integer), the loop fails at the first such line: with
  IndexError for too few fields and with ValueError otherwise. The lines after it are not
  read, since the failure and the lists are the same as for the file cut after that line,
  and the lengths and starts hold the lines before it only. The script ends with that
  exception after \<^verbatim>\<open>open\<close> and \<^verbatim>\<open>readlines\<close>, with status 1 and without any plotting
  call.
\<close>

theorem malformed_line_aborts:
  assumes "line \<in> set ls" and "\<not> well_formed line" and "fs path = Some (Text ls)"
  shows "\<exists>pre bad post e s. ls = pre @ bad # post
    \<and> list_all well_formed pre \<and> \<not> well_formed bad
    \<and> e = (if length (split bad) < 4 then IndexError else ValueError)
    \<and> for_lines ls empty_lists = Inl (e, s)
    \<and> for_lines (pre @ [bad]) empty_lists = Inl (e, s)
    \<and> lengths s = map (\<lambda>l. end_of l - start_of l) pre
    \<and> fstarts s = map start_of pre
    \<and> main [prog, path] fs = \<lparr>calls = [Open path ''r'', Readlines], outcome = Uncaught e\<rparr>
    \<and> \<not> list_ex is_plot_call (calls (main [prog, path] fs))
    \<and> exit_status (outcome (main [prog, path] fs)) = 1"
proof -
  from assms(1,2) have "\<not> list_all well_formed ls"
    by (auto simp: list_all_iff)
  then obtain pre bad post where ls: "ls = pre @ bad # post"
    and pre: "list_all well_formed pre" and bad: "\<not> well_formed bad"
    using first_malformed by blast
  define e where "e = (if length (split bad) < 4 then IndexError else ValueError)"
  define s where "s =
    (if length (split bad) < 4
     then \<lparr>features = map name_of pre,
           lengths = map (\<lambda>l. end_of l - start_of l) pre,
           fstarts = map start_of pre\<rparr>
     else \<lparr>features = map name_of pre @ [split bad ! 3],
           lengths = map (\<lambda>l. end_of l - start_of l) pre,
           fstarts = map start_of pre\<rparr>)"
  have full: "for_lines ls empty_lists = Inl (e, s)"
    using for_lines_first_malformed [OF pre bad, of post] by (simp add: ls e_def s_def)
  have cut: "for_lines (pre @ [bad]) empty_lists = Inl (e, s)"
    using for_lines_first_malformed [OF pre bad, of "[]"] by (simp add: e_def s_def)
  have vals: "lengths s = map (\<lambda>l. end_of l - start_of l) pre" "fstarts s = map start_of pre"
    by (simp_all add: s_def)
  have run: "main [prog, path] fs =
      \<lparr>calls = [Open path ''r'', Readlines], outcome = Uncaught e\<rparr>"
    using assms(3) full by (simp add: main_def)
  have "\<not> list_ex is_plot_call (calls (main [prog, path] fs))"
    and "exit_status (outcome (main [prog, path] fs)) = 1"
    by (simp_all add: run)
  with ls pre bad full cut vals run show ?thesis
    unfolding e_def by blast
qed

theorem malformed_line_aborts_witness:
  "''chr1 30 45'' \<in> set [''chr1 10 20 a'', ''chr1 30 45'', ''chr1 50 60 c'']
   \<and> \<not> well_formed ''chr1 30 45''
   \<and> one_file ''a.bed'' [''chr1 10 20 a'', ''chr1 30 45'', ''chr1 50 60 c''] ''a.bed''
       = Some (Text [''chr1 10 20 a'', ''chr1 30 45'', ''chr1 50 60 c''])
   \<and> (\<exists>e s. for_lines [''chr1 10 20 a'', ''chr1 30 45'', ''chr1 50 60 c''] empty_lists
         = Inl (e, s)
       \<and> main [''feature-view.py'', ''a.bed'']
           (one_file ''a.bed'' [''chr1 10 20 a'', ''chr1 30 45'', ''chr1 50 60 c''])
         = \<lparr>calls = [Open ''a.bed'' ''r'', Readlines], outcome = Uncaught e\<rparr>)
   \<and> \<not> list_ex is_plot_call (calls (main [''feature-view.py'', ''a.bed'']
           (one_file ''a.bed'' [''chr1 10 20 a'', ''chr1 30 45'', ''chr1 50 60 c''])))
   \<and> exit_status (outcome (main [''feature-view.py'', ''a.bed'']
           (one_file ''a.bed'' [''chr1 10 20 a'', ''chr1 30 45'', ''chr1 50 60 c'']))) = 1"
proof -
  have h1: "''chr1 30 45'' \<in> set [''chr1 10 20 a'', ''chr1 30 45'', ''chr1 50 60 c'']"
    by simp
  have h2: "\<not> well_formed ''chr1 30 45''"
    by (simp add: concrete_defs)
  have h3: "one_file ''a.bed'' [''chr1 10 20 a'', ''chr1 30 45'', ''chr1 50 60 c''] ''a.bed''
      = Some (Text [''chr1 10 20 a'', ''chr1 30 45'', ''chr1 50 60 c''])"
    by (simp add: one_file_def)
  note run = malformed_line_aborts [where line = "''chr1 30 45''"
      and ls = "[''chr1 10 20 a'', ''chr1 30 45'', ''chr1 50 60 c'']"
      and path = "''a.bed''" and prog = "''feature-view.py''"
      and fs = "one_file ''a.bed'' [''chr1 10 20 a'', ''chr1 30 45'', ''chr1 50 60 c'']",
      OF h1 h2 h3]
  show ?thesis
    using h1 h2 h3 run by blast
qed

subsection \<open>C5: the plotting calls\<close>

text \<open>
  Claim C5. When the loop has read all \<open>N\<close> lines of the file, the script closes the file
  and then makes exactly these plotting calls, in this order: the bars are drawn at the
  positions \<open>0, ..., N - 1\<close> with the lengths as widths, thickness 0.3, the starts as left
  offsets and centred alignment; the ticks are set to the same positions and labelled with
  the names; the vertical axis is inverted; the horizontal axis is labelled ``Position'' and
  the title is ``Gene subfeatures''. Positions, widths, offsets and labels are \<open>N\<close> each.
\<close>

theorem plot_calls_after_load:
  assumes "for_lines ls empty_lists = Inr s" and "fs path = Some (Text ls)"
  shows "calls (main [prog, path] fs) =
      [Open path ''r'', Readlines, Close, Rcdefaults, Subplots,
       Barh (map int [0..<length ls]) (lengths s) (3 / 10) (fstarts s) ''center'',
       Set_yticks (map int [0..<length ls]),
       Set_yticklabels (features s),
       Invert_yaxis, Set_xlabel ''Position'', Set_title ''Gene subfeatures'', Show]
    \<and> length (lengths s) = length ls \<and> length (fstarts s) = length ls
    \<and> length (features s) = length ls"
proof -
  have wf: "list_all well_formed ls"
    using assms(1) by (rule for_lines_Inr_well_formed)
  have s: "s = \<lparr>features = map name_of ls,
                 lengths = map (\<lambda>l. end_of l - start_of l) ls,
                 fstarts = map start_of ls\<rparr>"
    using assms(1) for_lines_well_formed [OF wf, of empty_lists]
    by (simp add: empty_lists_def)
  have n: "length (features s) = length ls" "length (lengths s) = length ls"
    "length (fstarts s) = length ls"
    by (simp_all add: s)
  have "calls (main [prog, path] fs) = [Open path ''r'', Readlines, Close] @ plot s"
    using assms by (simp add: main_def)
  then show ?thesis
    using n by (simp add: plot_def Let_def arange_def)
qed

theorem plot_calls_after_load_witness:
  "for_lines [''chr1 10 20 a'', ''chr1 30 45 b''] empty_lists
     = Inr \<lparr>features = [''a'', ''b''], lengths = [10, 15], fstarts = [10, 30]\<rparr>
   \<and> one_file ''a.bed'' [''chr1 10 20 a'', ''chr1 30 45 b''] ''a.bed''
     = Some (Text [''chr1 10 20 a'', ''chr1 30 45 b''])
   \<and> calls (main [''feature-view.py'', ''a.bed'']
        (one_file ''a.bed'' [''chr1 10 20 a'', ''chr1 30 45 b''])) =
      [Open ''a.bed'' ''r'', Readlines, Close, Rcdefaults, Subplots,
       Barh [0, 1] [10, 15] (3 / 10) [10, 30] ''center'',
       Set_yticks [0, 1],
       Set_yticklabels [''a'', ''b''],
       Invert_yaxis, Set_xlabel ''Position'', Set_title ''Gene subfeatures'', Show]"
proof -
  have h1: "for_lines [''chr1 10 20 a'', ''chr1 30 45 b''] empty_lists
     = Inr \<lparr>features = [''a'', ''b''], lengths = [10, 15], fstarts = [10, 30]\<rparr>"
    by (simp add: concrete_defs)
  have h2: "one_file ''a.bed'' [''chr1 10 20 a'', ''chr1 30 45 b''] ''a.bed''
     = Some (Text [''chr1 10 20 a'', ''chr1 30 45 b''])"
    by (simp add: one_file_def)
  have u: "map int [0..<length [''chr1 10 20 a'', ''chr1 30 45 b'']] = [0, 1]"
    by (simp add: upt_rec)
  show ?thesis
    using h1 h2 plot_calls_after_load [where ls = "[''chr1 10 20 a'', ''chr1 30 45 b'']"
      and s = "\<lparr>features = [''a'', ''b''], lengths = [10, 15], fstarts = [10, 30]\<rparr>"
      and path = "''a.bed''" and prog = "''feature-view.py''"
      and fs = "one_file ''a.bed'' [''chr1 10 20 a'', ''chr1 30 45 b'']", OF h1 h2]
    unfolding u by simp
qed

subsection \<open>C6: a wrong number of arguments never reaches the file\<close>

text \<open>
  Claim C6. Called with any number of arguments other than one, the script takes the usage
  path: it writes the usage text and exits with status 1, and it makes no call that opens,
  reads or closes a file.
\<close>

theorem wrong_argument_count_no_file_io:
  assumes "length argv \<noteq> 2"
  shows "main argv fs = sys_exit usage
    \<and> calls (main argv fs) = [Write_stderr (usage @ [newline])]
    \<and> outcome (main argv fs) = Exit 1
    \<and> \<not> list_ex is_file_call (calls (main argv fs))"
  using assms by (simp add: main_def sys_exit_def)

theorem wrong_argument_count_no_file_io_witness:
  "length [''feature-view.py'', ''a.bed'', ''b.bed''] \<noteq> 2
   \<and> main [''feature-view.py'', ''a.bed'', ''b.bed''] (one_file ''a.bed'' [''chr1 10 20 a''])
     = sys_exit usage
   \<and> calls (main [''feature-view.py'', ''a.bed'', ''b.bed''] (one_file ''a.bed'' [''chr1 10 20 a'']))
     = [Write_stderr (usage @ [newline])]
   \<and> outcome (main [''feature-view.py'', ''a.bed'', ''b.bed''] (one_file ''a.bed'' [''chr1 10 20 a'']))
     = Exit 1
   \<and> \<not> list_ex is_file_call
       (calls (main [''feature-view.py'', ''a.bed'', ''b.bed''] (one_file ''a.bed'' [''chr1 10 20 a''])))"
proof -
  have h: "length [''feature-view.py'', ''a.bed'', ''b.bed''] \<noteq> 2"
    by simp
  show ?thesis
    using h wrong_argument_count_no_file_io [OF h, of "one_file ''a.bed'' [''chr1 10 20 a'']"]
    by blast
qed

subsection \<open>C7: when the file is closed\<close>

text \<open>
  Claim C7, as stated, asks that the file is closed on every path. A file whose only line
  has three fields is opened and read, the loop fails with IndexError, and the script ends
  without the call of \<^verbatim>\<open>close\<close>.
\<close>

theorem close_not_reached_counterexample:
  "main [''feature-view.py'', ''a.bed''] (one_file ''a.bed'' [''chr1 100 150''])
     = \<lparr>calls = [Open ''a.bed'' ''r'', Readlines], outcome = Uncaught IndexError\<rparr>
   \<and> Open ''a.bed'' ''r'' \<in> set (calls (main [''feature-view.py'', ''a.bed'']
        (one_file ''a.bed'' [''chr1 100 150''])))
   \<and> Close \<notin> set (calls (main [''feature-view.py'', ''a.bed'']
        (one_file ''a.bed'' [''chr1 100 150''])))"
proof -
  have "main [''feature-view.py'', ''a.bed''] (one_file ''a.bed'' [''chr1 100 150''])
     = \<lparr>calls = [Open ''a.bed'' ''r'', Readlines], outcome = Uncaught IndexError\<rparr>"
    by (simp add: main_def concrete_defs)
  then show ?thesis by simp
qed

text \<open>
  Claim C7, amended. The file is closed by one call of \<^verbatim>\<open>close\<close> that stands after the
  loop. When every line of the file is well-formed, the call is made after \<^verbatim>\<open>readlines\<close>
  and before the first plotting call, and every call after it is a plotting call. When some
  line is not well-formed, the script ends after \<^verbatim>\<open>open\<close> and \<^verbatim>\<open>readlines\<close> and the call
  of \<^verbatim>\<open>close\<close> is not reached.
\<close>

theorem close_after_full_read:
  assumes "fs path = Some (Text ls)"
  shows "(list_all well_formed ls \<longrightarrow>
      (\<exists>s. for_lines ls empty_lists = Inr s
        \<and> calls (main [prog, path] fs) = [Open path ''r'', Readlines, Close] @ plot s
        \<and> list_all is_plot_call (plot s)))
    \<and> (\<not> list_all well_formed ls \<longrightarrow>
      calls (main [prog, path] fs) = [Open path ''r'', Readlines]
      \<and> Close \<notin> set (calls (main [prog, path] fs)))"
proof (intro conjI impI)
  assume wf: "list_all well_formed ls"
  let ?s = "\<lparr>features = map name_of ls,
             lengths = map (\<lambda>l. end_of l - start_of l) ls,
             fstarts = map start_of ls\<rparr>"
  have load: "for_lines ls empty_lists = Inr ?s"
    using wf by (simp add: for_lines_well_formed empty_lists_def)
  then have "calls (main [prog, path] fs) = [Open path ''r'', Readlines, Close] @ plot ?s"
    using assms by (simp add: main_def)
  with load show "\<exists>s. for_lines ls empty_lists = Inr s
      \<and> calls (main [prog, path] fs) = [Open path ''r'', Readlines, Close] @ plot s
      \<and> list_all is_plot_call (plot s)"
    using plot_calls_are_plot_calls by blast
next
  assume bad: "\<not> list_all well_formed ls"
  have "\<exists>failure. for_lines ls empty_lists = Inl failure"
  proof (cases "for_lines ls empty_lists")
    case (Inl failure)
    then show ?thesis by blast
  next
    case (Inr s)
    then show ?thesis
      using bad for_lines_Inr_well_formed by blast
  qed
  then obtain e s where "for_lines ls empty_lists = Inl (e, s)"
    by (cases "for_lines ls empty_lists") auto
  then have c: "calls (main [prog, path] fs) = [Open path ''r'', Readlines]"
    using assms by (simp add: main_def)
  show "calls (main [prog, path] fs) = [Open path ''r'', Readlines]"
    by (rule c)
  show "Close \<notin> set (calls (main [prog, path] fs))"
    by (simp add: c)
qed

theorem close_after_full_read_witness:
  "one_file ''a.bed'' [''chr1 100 150 exon1''] ''a.bed'' = Some (Text [''chr1 100 150 exon1''])
   \<and> list_all well_formed [''chr1 100 150 exon1'']
   \<and> (\<exists>s. for_lines [''chr1 100 150 exon1''] empty_lists = Inr s
        \<and> calls (main [''feature-view.py'', ''a.bed''] (one_file ''a.bed'' [''chr1 100 150 exon1'']))
          = [Open ''a.bed'' ''r'', Readlines, Close] @ plot s
        \<and> list_all is_plot_call (plot s))
   \<and> one_file ''a.bed'' [''chr1 100 150''] ''a.bed'' = Some (Text [''chr1 100 150''])
   \<and> \<not> list_all well_formed [''chr1 100 150'']
   \<and> calls (main [''feature-view.py'', ''a.bed''] (one_file ''a.bed'' [''chr1 100 150'']))
     = [Open ''a.bed'' ''r'', Readlines]
   \<and> Close \<notin> set (calls (main [''feature-view.py'', ''a.bed'']
       (one_file ''a.bed'' [''chr1 100 150''])))"
proof -
  have h1: "one_file ''a.bed'' [''chr1 100 150 exon1''] ''a.bed''
      = Some (Text [''chr1 100 150 exon1''])"
    by (simp add: one_file_def)
  have g1: "list_all well_formed [''chr1 100 150 exon1'']"
    by (simp add: concrete_defs)
  have h2: "one_file ''a.bed'' [''chr1 100 150''] ''a.bed'' = Some (Text [''chr1 100 150''])"
    by (simp add: one_file_def)
  have g2: "\<not> list_all well_formed [''chr1 100 150'']"
    by (simp add: concrete_defs)
  note good = close_after_full_read [where ls = "[''chr1 100 150 exon1'']" and path = "''a.bed''"
      and prog = "''feature-view.py''" and fs = "one_file ''a.bed'' [''chr1 100 150 exon1'']",
      OF h1]
  note bad = close_after_full_read [where ls = "[''chr1 100 150'']" and path = "''a.bed''"
      and prog = "''feature-view.py''" and fs = "one_file ''a.bed'' [''chr1 100 150'']",
      OF h2]
  show ?thesis
    using h1 g1 h2 g2 good bad by blast
qed

subsection \<open>C8: the sign of the parsed positions\<close>

text \<open>
  Claim C8, as stated, asks that every accepted start and end is at least 0. The line
  \<^verbatim>\<open>chr1 -5 -2 x\<close> is well-formed and is loaded with start \<open>-5\<close> and end \<open>-2\<close>.
\<close>

theorem negative_position_counterexample:
  "well_formed ''chr1 -5 -2 x''
   \<and> for_lines [''chr1 -5 -2 x''] empty_lists
     = Inr \<lparr>features = [''x''], lengths = [3], fstarts = [- 5]\<rparr>
   \<and> start_of ''chr1 -5 -2 x'' = - 5 \<and> end_of ''chr1 -5 -2 x'' = - 2
   \<and> \<not> 0 \<le> start_of ''chr1 -5 -2 x'' \<and> \<not> 0 \<le> end_of ''chr1 -5 -2 x''"
  by (simp add: concrete_defs)

text \<open>
  Claim C8, amended. The start and the end of every accepted line are integers; each of
  them is at least 0 when its field does not begin with a minus sign. Fields with a leading
  minus sign are accepted as well.
\<close>

theorem positions_without_minus_nonnegative:
  assumes "well_formed line"
  shows "(hd (split line ! 1) \<noteq> CHR ''-'' \<longrightarrow> 0 \<le> start_of line)
    \<and> (hd (split line ! 2) \<noteq> CHR ''-'' \<longrightarrow> 0 \<le> end_of line)"
proof -
  from assms obtain b e where b: "py_int (split line ! 1) = Some b"
    and e: "py_int (split line ! 2) = Some e"
    by (auto simp: well_formed_def)
  show ?thesis
    using py_int_not_minus [OF b] py_int_not_minus [OF e] b e
    by (simp add: start_of_def end_of_def)
qed

theorem positions_without_minus_nonnegative_witness:
  "well_formed ''chr1 100 150 exon1''
   \<and> hd (split ''chr1 100 150 exon1'' ! 1) \<noteq> CHR ''-''
   \<and> 0 \<le> start_of ''chr1 100 150 exon1''
   \<and> hd (split ''chr1 100 150 exon1'' ! 2) \<noteq> CHR ''-''
   \<and> 0 \<le> end_of ''chr1 100 150 exon1''"
proof -
  have h: "well_formed ''chr1 100 150 exon1''"
    by (simp add: concrete_defs)
  have f: "hd (split ''chr1 100 150 exon1'' ! 1) \<noteq> CHR ''-''"
    "hd (split ''chr1 100 150 exon1'' ! 2) \<noteq> CHR ''-''"
    by (simp_all add: concrete_defs)
  show ?thesis
    using h f positions_without_minus_nonnegative [OF h] by blast
qed

subsection \<open>C9: the empty file\<close>

text \<open>
  Claim C9. For a file without lines the loop returns three empty lists, and the script
  closes the file, makes the plotting calls with no positions, no widths, no offsets and no
  labels, and ends with status 0.
\<close>

theorem empty_file_chart:
  assumes "fs path = Some (Text [])"
  shows "for_lines [] empty_lists = Inr \<lparr>features = [], lengths = [], fstarts = []\<rparr>
    \<and> main [prog, path] fs =
      \<lparr>calls = [Open path ''r'', Readlines, Close, Rcdefaults, Subplots,
         Barh [] [] (3 / 10) [] ''center'', Set_yticks [], Set_yticklabels [],
         Invert_yaxis, Set_xlabel ''Position'', Set_title ''Gene subfeatures'', Show],
       outcome = Exit 0\<rparr>"
  using assms by (simp add: main_def plot_def arange_def empty_lists_def)

theorem empty_file_chart_witness:
  "one_file ''empty.bed'' [] ''empty.bed'' = Some (Text [])
   \<and> for_lines [] empty_lists = Inr \<lparr>features = [], lengths = [], fstarts = []\<rparr>
   \<and> main [''feature-view.py'', ''empty.bed''] (one_file ''empty.bed'' []) =
      \<lparr>calls = [Open ''empty.bed'' ''r'', Readlines, Close, Rcdefaults, Subplots,
         Barh [] [] (3 / 10) [] ''center'', Set_yticks [], Set_yticklabels [],
         Invert_yaxis, Set_xlabel ''Position'', Set_title ''Gene subfeatures'', Show],
       outcome = Exit 0\<rparr>"
proof -
  have h: "one_file ''empty.bed'' [] ''empty.bed'' = Some (Text [])"
    by (simp add: one_file_def)
  show ?thesis
    using h empty_file_chart [where fs = "one_file ''empty.bed'' []" and path = "''empty.bed''"
      and prog = "''feature-view.py''", OF h]
    by blast
qed

subsection \<open>C10: the name is appended before the conversion fails\<close>

text \<open>
  Claim C10. When the first line that is not well-formed has at least four fields, so that
  its second or third field is no integer, the loop fails with ValueError after it has
  appended the name of that line: at the failure the names are those of the lines before
  and of the failing line, the lengths and starts are those of the lines before only, and
  the list of names is one longer than each of the other two.
\<close>

theorem name_appended_before_failure:
  assumes "list_all well_formed pre" and "4 \<le> length (split line)"
    and "py_int (split line ! 1) = None \<or> py_int (split line ! 2) = None"
  shows "\<exists>s. for_lines (pre @ line # post) empty_lists = Inl (ValueError, s)
    \<and> features s = map name_of pre @ [split line ! 3]
    \<and> lengths s = map (\<lambda>l. end_of l - start_of l) pre
    \<and> fstarts s = map start_of pre
    \<and> length (features s) = length (lengths s) + 1
    \<and> length (features s) = length (fstarts s) + 1"
proof -
  have bad: "\<not> well_formed line"
    using assms(3) by (auto simp: well_formed_def)
  have "\<not> length (split line) < 4"
    using assms(2) by simp
  then show ?thesis
    using for_lines_first_malformed [OF assms(1) bad, of post] by simp
qed

theorem name_appended_before_failure_witness:
  "list_all well_formed [''chr1 10 20 a''] \<and> 4 \<le> length (split ''chr1 30 x b'')
   \<and> py_int (split ''chr1 30 x b'' ! 2) = None
   \<and> (\<exists>s. for_lines ([''chr1 10 20 a''] @ ''chr1 30 x b'' # [''chr1 50 60 c'']) empty_lists
         = Inl (ValueError, s)
       \<and> features s = [''a'', ''b''] \<and> lengths s = [10] \<and> fstarts s = [10]
       \<and> length (features s) = length (lengths s) + 1
       \<and> length (features s) = length (fstarts s) + 1)"
proof -
  have h1: "list_all well_formed [''chr1 10 20 a'']"
    by (simp add: concrete_defs)
  have f: "split ''chr1 30 x b'' = [''chr1'', ''30'', ''x'', ''b'']"
    by (simp add: concrete_defs)
  have h2: "4 \<le> length (split ''chr1 30 x b'')"
    by (simp add: f)
  have n: "py_int (split ''chr1 30 x b'' ! 2) = None"
    by (simp add: f py_int_def digit_def)
  then have h3: "py_int (split ''chr1 30 x b'' ! 1) = None
      \<or> py_int (split ''chr1 30 x b'' ! 2) = None"
    by simp
  have v: "name_of ''chr1 10 20 a'' = ''a''" "start_of ''chr1 10 20 a'' = 10"
    "end_of ''chr1 10 20 a'' = 20"
    by (simp_all add: concrete_defs)
  from name_appended_before_failure [where pre = "[''chr1 10 20 a'']"
      and line = "''chr1 30 x b''" and post = "[''chr1 50 60 c'']", OF h1 h2 h3]
  have "\<exists>s. for_lines ([''chr1 10 20 a''] @ ''chr1 30 x b'' # [''chr1 50 60 c'']) empty_lists
         = Inl (ValueError, s)
       \<and> features s = [''a'', ''b''] \<and> lengths s = [10] \<and> fstarts s = [10]
       \<and> length (features s) = length (lengths s) + 1
       \<and> length (features s) = length (fstarts s) + 1"
    by (simp add: v f)
  then show ?thesis
    using h1 h2 n by blast
qed

end
